theory Spec2Isabelle
  imports Main "HOL-Library.Word" "HOL-Library.Monad_Syntax"
begin

unbundle bit_operations_syntax

text \<open>
  The ILI9341 driver of Src/ili9341_tft_lcd_driver.c: the status translator, the
  transmit primitive, the reset procedures, the configuration steps and the
  initialization sequencer. A function that changes the driver's variables or
  calls the HAL takes the driver state and returns it; each call into the HAL
  is appended to a log in the state. A function that transmits returns \<open>None\<close>
  when its wait for the transport never ends.
\<close>

section \<open>Status codes\<close>

text \<open>
  \<^verbatim>\<open>ILI9341_Status\<close> (Inc/ili9341_tft_lcd_driver.h) and the vendor's
  \<^verbatim>\<open>HAL_StatusTypeDef\<close> are C enumerations. \<^verbatim>\<open>HAL_ret_handler\<close> casts one to the
  other, so both are modelled by their numeric value in one word type; the cast
  is then the identity.
\<close>

type_synonym status = "32 word"

definition ILI9341_EC_OK :: status where "ILI9341_EC_OK = 0"
definition ILI9341_EC_STOP :: status where "ILI9341_EC_STOP = 1"
definition ILI9341_EC_NR :: status where "ILI9341_EC_NR = 2"
definition ILI9341_EC_NA :: status where "ILI9341_EC_NA = 3"
definition ILI9341_EC_ERR :: status where "ILI9341_EC_ERR = 4"

text \<open>
  \<^verbatim>\<open>HAL_StatusTypeDef\<close> is declared by the vendor's HAL header, which the driver
  includes (\<^verbatim>\<open>#include "stm32f1xx_hal.h"\<close>) and the repository does not contain.
  Its four enumerators are a parameter of the model: a record of their values.
  \<open>hal_codes_valid\<close> says what the driver relies on: the enumerators are different
  values (three of them label the cases of one switch) and \<^verbatim>\<open>HAL_OK\<close> has the value
  of \<^verbatim>\<open>ILI9341_EC_OK\<close>, to which the default case casts it. \<open>stm32_hal\<close> holds the
  values the STM32 HAL gives them.
\<close>

record hal_codes =
  HAL_OK :: status
  HAL_ERROR :: status
  HAL_BUSY :: status
  HAL_TIMEOUT :: status

definition hal_codes_valid :: "hal_codes \<Rightarrow> bool" where
  "hal_codes_valid h =
     (HAL_OK h = ILI9341_EC_OK \<and> distinct [HAL_OK h, HAL_ERROR h, HAL_BUSY h, HAL_TIMEOUT h])"

definition stm32_hal :: hal_codes where
  "stm32_hal = \<lparr>HAL_OK = 0, HAL_ERROR = 1, HAL_BUSY = 2, HAL_TIMEOUT = 3\<rparr>"

text \<open>
  \<^verbatim>\<open>HAL_ret_handler\<close>: a switch on the HAL status with the labels \<^verbatim>\<open>HAL_BUSY\<close>,
  \<^verbatim>\<open>HAL_TIMEOUT\<close> (falling through to the same return), \<^verbatim>\<open>HAL_ERROR\<close> and
  \<^verbatim>\<open>default\<close>. It reads and writes no variable of the driver, so it is a function
  of the status alone, given the enumerators \<open>h\<close>.
\<close>

definition HAL_ret_handler :: "hal_codes \<Rightarrow> status \<Rightarrow> status" where
  "HAL_ret_handler h HAL_status =
     (if HAL_status = HAL_BUSY h then ILI9341_EC_NR
      else if HAL_status = HAL_TIMEOUT h then ILI9341_EC_NR
      else if HAL_status = HAL_ERROR h then ILI9341_EC_ERR
      else HAL_status)"

section \<open>Opcodes, sizes and parameter codes\<close>

definition ILI9341_SOFTWARE_RESET_COMMAND :: "8 word" where
  "ILI9341_SOFTWARE_RESET_COMMAND = 0x01"
definition ILI9341_POWER_CONTROL_1_COMMAND :: "8 word" where
  "ILI9341_POWER_CONTROL_1_COMMAND = 0xC0"
definition ILI9341_VCOM_CONTROL_1_COMMAND :: "8 word" where
  "ILI9341_VCOM_CONTROL_1_COMMAND = 0xC5"
definition ILI9341_VCOM_CONTROL_2_COMMAND :: "8 word" where
  "ILI9341_VCOM_CONTROL_2_COMMAND = 0xC7"
definition ILI9341_MEMORY_ACCESS_CONTROL_COMMAND :: "8 word" where
  "ILI9341_MEMORY_ACCESS_CONTROL_COMMAND = 0x36"
definition ILI9341_PIXEL_FORMAT_COMMAND :: "8 word" where
  "ILI9341_PIXEL_FORMAT_COMMAND = 0x3A"
definition ILI9341_DISPLAY_FUNCTION_CONTROL_COMMAND :: "8 word" where
  "ILI9341_DISPLAY_FUNCTION_CONTROL_COMMAND = 0xB6"
definition ILI9341_SLEEP_OUT_COMMAND :: "8 word" where
  "ILI9341_SLEEP_OUT_COMMAND = 0x11"
definition ILI9341_DISPLAY_ON_COMMAND :: "8 word" where
  "ILI9341_DISPLAY_ON_COMMAND = 0x29"

definition ILI9341_COMMAND_SIZE :: nat where "ILI9341_COMMAND_SIZE = 1"
definition ILI9341_SINGLE_DATA_SIZE :: nat where "ILI9341_SINGLE_DATA_SIZE = 1"
definition ILI9341_VCOM_CONTROL_1_DATA_SIZE :: nat where "ILI9341_VCOM_CONTROL_1_DATA_SIZE = 2"
definition ILI9341_DISPLAY_FUNCTION_CONTROL_DATA_SIZE :: nat where
  "ILI9341_DISPLAY_FUNCTION_CONTROL_DATA_SIZE = 2"

text \<open>
  The four parameter enumerations have one enumerator each; the steps cast the
  argument to \<^verbatim>\<open>uint8_t\<close>, which the \<open>_code\<close> functions give.
\<close>

datatype ILI9341_GVDD_t = ILI9341_GVDD_4V6
datatype ILI9341_VCOMH_t = ILI9341_VCOMH_4V25
datatype ILI9341_VCOML_t = ILI9341_VCOML_minus_1V5
datatype ILI9341_VMF_t = ILI9341_VMF_minus_58

fun GVDD_code :: "ILI9341_GVDD_t \<Rightarrow> 8 word" where
  "GVDD_code ILI9341_GVDD_4V6 = 0x23"

fun VCOMH_code :: "ILI9341_VCOMH_t \<Rightarrow> 8 word" where
  "VCOMH_code ILI9341_VCOMH_4V25 = 0x3E"

fun VCOML_code :: "ILI9341_VCOML_t \<Rightarrow> 8 word" where
  "VCOML_code ILI9341_VCOML_minus_1V5 = 0x28"

fun VMF_code :: "ILI9341_VMF_t \<Rightarrow> 8 word" where
  "VMF_code ILI9341_VMF_minus_58 = 0x86"

section \<open>Register payloads packed in bit-fields\<close>

text \<open>
  The payload structures are packed \<^verbatim>\<open>uint8_t\<close> bit-fields that the steps send
  through a \<^verbatim>\<open>uint8_t *\<close> cast. The byte is modelled with the allocation the
  target compiler uses (little-endian, first declared field in the lowest
  bits); a store into a field of width \<open>n\<close> keeps the low \<open>n\<close> bits of the value.
\<close>

record ILI9341_MADCTL_MCU_WRITE_READ_DIRECTION_def_t =
  mv :: "8 word"
  mx :: "8 word"
  my :: "8 word"
  reserved :: "8 word"

definition wr_rd_dir_byte :: "ILI9341_MADCTL_MCU_WRITE_READ_DIRECTION_def_t \<Rightarrow> 8 word" where
  "wr_rd_dir_byte d =
     take_bit 1 (mv d) OR push_bit 1 (take_bit 1 (mx d)) OR push_bit 2 (take_bit 1 (my d))
       OR push_bit 3 (take_bit 5 (reserved d))"

record ILI9341_MADCTL_def_t =
  d0_and_d1 :: "8 word"
  mh :: "8 word"
  bgr :: "8 word"
  ml :: "8 word"
  wr_rd_dir :: "8 word"

definition madctl_byte :: "ILI9341_MADCTL_def_t \<Rightarrow> 8 word" where
  "madctl_byte m =
     take_bit 2 (d0_and_d1 m) OR push_bit 2 (take_bit 1 (mh m)) OR push_bit 3 (take_bit 1 (bgr m))
       OR push_bit 4 (take_bit 1 (ml m)) OR push_bit 5 (take_bit 3 (wr_rd_dir m))"

record ILI9341_PIXEL_FORMAT_def_t =
  dbi :: "8 word"
  d3 :: "8 word"
  dpi :: "8 word"
  d7 :: "8 word"

definition pixel_format_byte :: "ILI9341_PIXEL_FORMAT_def_t \<Rightarrow> 8 word" where
  "pixel_format_byte f =
     take_bit 3 (dbi f) OR push_bit 3 (take_bit 1 (d3 f)) OR push_bit 4 (take_bit 3 (dpi f))
       OR push_bit 7 (take_bit 1 (d7 f))"

section \<open>Driver state and the collaborators\<close>

datatype GPIO_PinState = GPIO_PIN_RESET | GPIO_PIN_SET

text \<open>
  The three control lines of \<^verbatim>\<open>ILI9341_peripherals_def_t\<close>. The structure gives
  each line a port and a pin; the model names the line itself, so the binding
  is taken to give the three lines different pins.
\<close>

datatype ili9341_line = CS | RESET | DC

datatype ILI9341_BPP_t = ILI9341_BPP_16 | ILI9341_BPP_18

text \<open>The two routines \<^verbatim>\<open>p_ili9341_fill_screen\<close> can point to.\<close>

datatype fill_routine = ili9341_fill_screen_16bpp | ili9341_fill_screen_18bpp

text \<open>The calls the driver makes into the HAL, in the order it makes them.\<close>

datatype hal_call =
    Gpio_write ili9341_line GPIO_PinState
  | Delay_ms nat
  | Spi_transmit_dma "8 word list"

text \<open>
  The transport as the driver sees it. \<open>hal w\<close> are the status enumerators of its
  HAL, \<open>txe_flag w k i\<close> is the \<open>i\<close>-th reading of the SPI \<^verbatim>\<open>TXE\<close> flag while the
  driver waits before its \<open>k\<close>-th call of \<^verbatim>\<open>HAL_SPI_Transmit_DMA\<close>, and
  \<open>transmit_status w k\<close> is what that call returns. A run of the driver meets the
  transport only through these answers, so every behaviour of a transport in a
  run is one such record.
\<close>

record transport =
  hal :: hal_codes
  txe_flag :: "nat \<Rightarrow> nat \<Rightarrow> bool"
  transmit_status :: "nat \<Rightarrow> status"

text \<open>
  The file-scope variables of the driver, the level of the three lines, the number
  of transmit calls made so far and the log of HAL calls. A pointer is the
  address it holds (\<open>0\<close> for the null pointer a static variable starts with); the
  function pointer is \<open>None\<close> until it is set.
\<close>

record driver =
  p_hspi :: nat
  p_ili9341_peripherals :: nat
  ili9341_bpp_type :: ILI9341_BPP_t
  p_ili9341_fill_screen :: "fill_routine option"
  pins :: "ili9341_line \<Rightarrow> GPIO_PinState"
  tx_calls :: nat
  trace :: "hal_call list"

definition HAL_GPIO_WritePin :: "ili9341_line \<Rightarrow> GPIO_PinState \<Rightarrow> driver \<Rightarrow> driver" where
  "HAL_GPIO_WritePin line st s =
     s\<lparr>pins := (pins s)(line := st), trace := trace s @ [Gpio_write line st]\<rparr>"

definition HAL_Delay :: "nat \<Rightarrow> driver \<Rightarrow> driver" where
  "HAL_Delay n s = s\<lparr>trace := trace s @ [Delay_ms n]\<rparr>"

definition enable_cs_pin :: "driver \<Rightarrow> driver" where
  "enable_cs_pin = HAL_GPIO_WritePin CS GPIO_PIN_RESET"

definition disable_cs_pin :: "driver \<Rightarrow> driver" where
  "disable_cs_pin = HAL_GPIO_WritePin CS GPIO_PIN_SET"

definition set_dc_pin_to_data_mode :: "driver \<Rightarrow> driver" where
  "set_dc_pin_to_data_mode = HAL_GPIO_WritePin DC GPIO_PIN_SET"

definition set_dc_pin_to_command_mode :: "driver \<Rightarrow> driver" where
  "set_dc_pin_to_command_mode = HAL_GPIO_WritePin DC GPIO_PIN_RESET"

text \<open>
  \<^verbatim>\<open>while(!__HAL_SPI_GET_FLAG(HSPI_INSTANCE, SPI_FLAG_TXE));\<close> polls the flag until
  it reads set. The loop may never end: \<open>None\<close> is the run that spins forever.
\<close>

partial_function (option) wait_txe :: "(nat \<Rightarrow> bool) \<Rightarrow> nat \<Rightarrow> unit option" where
  "wait_txe flag i = (if flag i then Some () else wait_txe flag (Suc i))"

text \<open>
  \<^verbatim>\<open>ili9341_dma_spi_tx\<close>: wait for the flag, then hand the first \<open>sz\<close> bytes of the
  buffer (\<open>sz\<close> is the parameter \<^verbatim>\<open>size\<close>) to the transport and translate its status.
\<close>

definition ili9341_dma_spi_tx ::
  "transport \<Rightarrow> 8 word list \<Rightarrow> nat \<Rightarrow> driver \<Rightarrow> (status \<times> driver) option" where
  "ili9341_dma_spi_tx w buffer sz s =
     do {
       _ \<leftarrow> wait_txe (txe_flag w (tx_calls s)) 0;
       Some (HAL_ret_handler (hal w) (transmit_status w (tx_calls s)),
             s\<lparr>tx_calls := Suc (tx_calls s),
               trace := trace s @ [Spi_transmit_dma (take sz buffer)]\<rparr>)
     }"

section \<open>Reset procedures and configuration steps\<close>

definition ili9341_hardware_reset :: "driver \<Rightarrow> driver" where
  "ili9341_hardware_reset s =
     HAL_Delay 5 (HAL_GPIO_WritePin RESET GPIO_PIN_SET
       (HAL_Delay 1 (HAL_GPIO_WritePin RESET GPIO_PIN_RESET
         (HAL_Delay 1 (HAL_GPIO_WritePin RESET GPIO_PIN_SET s)))))"

definition ili9341_software_reset :: "transport \<Rightarrow> driver \<Rightarrow> (status \<times> driver) option" where
  "ili9341_software_reset w s0 =
     do {
       (ret, s) \<leftarrow> ili9341_dma_spi_tx w [ILI9341_SOFTWARE_RESET_COMMAND] ILI9341_COMMAND_SIZE
                     (enable_cs_pin (set_dc_pin_to_command_mode s0));
       Some (ret, HAL_Delay 5 (disable_cs_pin s))
     }"

definition ili9341_configure_power_control_1 ::
  "transport \<Rightarrow> ILI9341_GVDD_t \<Rightarrow> driver \<Rightarrow> (status \<times> driver) option" where
  "ili9341_configure_power_control_1 w gvdd_level s0 =
     do {
       (ret, s) \<leftarrow> ili9341_dma_spi_tx w [ILI9341_POWER_CONTROL_1_COMMAND] ILI9341_COMMAND_SIZE
                     (enable_cs_pin (set_dc_pin_to_command_mode s0));
       if ret \<noteq> ILI9341_EC_OK then Some (ret, disable_cs_pin s)
       else do {
         (ret, s) \<leftarrow> ili9341_dma_spi_tx w [GVDD_code gvdd_level] ILI9341_SINGLE_DATA_SIZE
                       (set_dc_pin_to_data_mode s);
         Some (ret, disable_cs_pin s)
       }
     }"

definition ili9341_configure_vcom_control_1 ::
  "transport \<Rightarrow> ILI9341_VCOMH_t \<Rightarrow> ILI9341_VCOML_t \<Rightarrow> driver \<Rightarrow> (status \<times> driver) option" where
  "ili9341_configure_vcom_control_1 w vcomh_voltage vcoml_voltage s0 =
     do {
       (ret, s) \<leftarrow> ili9341_dma_spi_tx w [ILI9341_VCOM_CONTROL_1_COMMAND] ILI9341_COMMAND_SIZE
                     (enable_cs_pin (set_dc_pin_to_command_mode s0));
       if ret \<noteq> ILI9341_EC_OK then Some (ret, disable_cs_pin s)
       else do {
         (ret, s) \<leftarrow> ili9341_dma_spi_tx w [VCOMH_code vcomh_voltage, VCOML_code vcoml_voltage]
                       ILI9341_VCOM_CONTROL_1_DATA_SIZE (set_dc_pin_to_data_mode s);
         Some (ret, disable_cs_pin s)
       }
     }"

definition ili9341_configure_vcom_control_2 ::
  "transport \<Rightarrow> ILI9341_VMF_t \<Rightarrow> driver \<Rightarrow> (status \<times> driver) option" where
  "ili9341_configure_vcom_control_2 w vmf_offset s0 =
     do {
       (ret, s) \<leftarrow> ili9341_dma_spi_tx w [ILI9341_VCOM_CONTROL_2_COMMAND] ILI9341_COMMAND_SIZE
                     (enable_cs_pin (set_dc_pin_to_command_mode s0));
       if ret \<noteq> ILI9341_EC_OK then Some (ret, disable_cs_pin s)
       else do {
         (ret, s) \<leftarrow> ili9341_dma_spi_tx w [VMF_code vmf_offset] ILI9341_SINGLE_DATA_SIZE
                       (set_dc_pin_to_data_mode s);
         Some (ret, disable_cs_pin s)
       }
     }"

text \<open>
  The Memory Access Control payload as the step builds it: both structures start
  zeroed (\<^verbatim>\<open>= {0}\<close>), the fields are assigned, and the inner structure is read
  back as a byte and stored into the 3-bit field \<^verbatim>\<open>wr_rd_dir\<close>.
\<close>

definition memory_access_control_data :: ILI9341_MADCTL_def_t where
  "memory_access_control_data =
     \<lparr>d0_and_d1 = 0, mh = 0, bgr = 1, ml = 0,
      wr_rd_dir = wr_rd_dir_byte \<lparr>mv = 0, mx = 1, my = 0, reserved = 0\<rparr>\<rparr>"

definition ili9341_configure_memory_access_control ::
  "transport \<Rightarrow> driver \<Rightarrow> (status \<times> driver) option" where
  "ili9341_configure_memory_access_control w s0 =
     do {
       (ret, s) \<leftarrow> ili9341_dma_spi_tx w [ILI9341_MEMORY_ACCESS_CONTROL_COMMAND]
                     ILI9341_COMMAND_SIZE (enable_cs_pin (set_dc_pin_to_command_mode s0));
       if ret \<noteq> ILI9341_EC_OK then Some (ret, disable_cs_pin s)
       else do {
         (ret, s) \<leftarrow> ili9341_dma_spi_tx w [madctl_byte memory_access_control_data]
                       ILI9341_SINGLE_DATA_SIZE (set_dc_pin_to_data_mode s);
         Some (ret, disable_cs_pin s)
       }
     }"

definition pixel_format_data :: ILI9341_PIXEL_FORMAT_def_t where
  "pixel_format_data = \<lparr>dbi = 0x05, d3 = 0, dpi = 0x05, d7 = 0\<rparr>"

definition ili9341_configure_pixel_format ::
  "transport \<Rightarrow> driver \<Rightarrow> (status \<times> driver) option" where
  "ili9341_configure_pixel_format w s0 =
     do {
       (ret, s) \<leftarrow> ili9341_dma_spi_tx w [ILI9341_PIXEL_FORMAT_COMMAND] ILI9341_COMMAND_SIZE
                     (enable_cs_pin (set_dc_pin_to_command_mode
                       (s0\<lparr>p_ili9341_fill_screen := Some ili9341_fill_screen_16bpp,
                           ili9341_bpp_type := ILI9341_BPP_16\<rparr>)));
       if ret \<noteq> ILI9341_EC_OK then Some (ret, disable_cs_pin s)
       else do {
         (ret, s) \<leftarrow> ili9341_dma_spi_tx w [pixel_format_byte pixel_format_data]
                       ILI9341_SINGLE_DATA_SIZE (set_dc_pin_to_data_mode s);
         Some (ret, disable_cs_pin s)
       }
     }"

text \<open>
  The Display Function Control step declares
  \<^verbatim>\<open>uint8_t ili9341_data_value[ILI9341_DISPLAY_FUNCTION_CONTROL_DATA_SIZE]\<close> and then
  assigns the elements 0, 1 and 2. \<open>display_function_control_stores\<close> lists the
  three assignments as index and value. \<open>array_store\<close> is the store into an
  array of known length: C gives a store past the end no meaning, and the model
  leaves the array as it is there and goes on, so that the bytes handed to the
  transport are the declared elements.
\<close>

definition display_function_control_stores :: "(nat \<times> 8 word) list" where
  "display_function_control_stores = [(0, 0x08), (1, 0x82), (2, 0x27)]"

fun array_store :: "8 word list \<Rightarrow> nat \<times> 8 word \<Rightarrow> 8 word list" where
  "array_store a (i, v) = (if i < length a then a[i := v] else a)"

definition stores_in_bounds :: "nat \<Rightarrow> (nat \<times> 8 word) list \<Rightarrow> bool" where
  "stores_in_bounds n stores = list_all (\<lambda>(i, v). i < n) stores"

definition display_function_control_buffer :: "8 word list" where
  "display_function_control_buffer =
     foldl array_store (replicate ILI9341_DISPLAY_FUNCTION_CONTROL_DATA_SIZE 0)
       display_function_control_stores"

definition ili9341_configure_display_function_control ::
  "transport \<Rightarrow> driver \<Rightarrow> (status \<times> driver) option" where
  "ili9341_configure_display_function_control w s0 =
     do {
       (ret, s) \<leftarrow> ili9341_dma_spi_tx w [ILI9341_DISPLAY_FUNCTION_CONTROL_COMMAND]
                     ILI9341_COMMAND_SIZE (enable_cs_pin (set_dc_pin_to_command_mode s0));
       if ret \<noteq> ILI9341_EC_OK then Some (ret, disable_cs_pin s)
       else do {
         (ret, s) \<leftarrow> ili9341_dma_spi_tx w display_function_control_buffer
                       ILI9341_DISPLAY_FUNCTION_CONTROL_DATA_SIZE (set_dc_pin_to_data_mode s);
         Some (ret, disable_cs_pin s)
       }
     }"

definition ili9341_exit_sleep_mode :: "transport \<Rightarrow> driver \<Rightarrow> (status \<times> driver) option" where
  "ili9341_exit_sleep_mode w s0 =
     do {
       (ret, s) \<leftarrow> ili9341_dma_spi_tx w [ILI9341_SLEEP_OUT_COMMAND] ILI9341_COMMAND_SIZE
                     (enable_cs_pin (set_dc_pin_to_command_mode s0));
       Some (ret, HAL_Delay 5 (disable_cs_pin s))
     }"

definition ili9341_turn_display_on :: "transport \<Rightarrow> driver \<Rightarrow> (status \<times> driver) option" where
  "ili9341_turn_display_on w s0 =
     do {
       (ret, s) \<leftarrow> ili9341_dma_spi_tx w [ILI9341_DISPLAY_ON_COMMAND] ILI9341_COMMAND_SIZE
                     (enable_cs_pin (set_dc_pin_to_command_mode s0));
       Some (ret, disable_cs_pin s)
     }"

section \<open>The initialization sequencer\<close>

definition init_ili9341_module ::
  "transport \<Rightarrow> nat \<Rightarrow> nat \<Rightarrow> driver \<Rightarrow> (status \<times> driver) option" where
  "init_ili9341_module w hspi peripherals s0 =
     do {
       (ret, s) \<leftarrow> ili9341_software_reset w
                     (ili9341_hardware_reset (disable_cs_pin
                       (s0\<lparr>p_hspi := hspi, p_ili9341_peripherals := peripherals\<rparr>)));
       if ret \<noteq> ILI9341_EC_OK then Some (ret, s) else do {
       (ret, s) \<leftarrow> ili9341_configure_power_control_1 w ILI9341_GVDD_4V6 s;
       if ret \<noteq> ILI9341_EC_OK then Some (ret, s) else do {
       (ret, s) \<leftarrow> ili9341_configure_vcom_control_1 w ILI9341_VCOMH_4V25 ILI9341_VCOML_minus_1V5 s;
       if ret \<noteq> ILI9341_EC_OK then Some (ret, s) else do {
       (ret, s) \<leftarrow> ili9341_configure_vcom_control_2 w ILI9341_VMF_minus_58 s;
       if ret \<noteq> ILI9341_EC_OK then Some (ret, s) else do {
       (ret, s) \<leftarrow> ili9341_configure_memory_access_control w s;
       if ret \<noteq> ILI9341_EC_OK then Some (ret, s) else do {
       (ret, s) \<leftarrow> ili9341_configure_pixel_format w s;
       if ret \<noteq> ILI9341_EC_OK then Some (ret, s) else do {
       (ret, s) \<leftarrow> ili9341_configure_display_function_control w s;
       if ret \<noteq> ILI9341_EC_OK then Some (ret, s) else do {
       (ret, s) \<leftarrow> ili9341_exit_sleep_mode w s;
       if ret \<noteq> ILI9341_EC_OK then Some (ret, s) else do {
       (ret, s) \<leftarrow> ili9341_turn_display_on w s;
       if ret \<noteq> ILI9341_EC_OK then Some (ret, s) else Some (ILI9341_EC_OK, s)
       }}}}}}}}
     }"

section \<open>The steps as one family\<close>

text \<open>
  The nine functions that frame a command on the bus, with the arguments they are
  called with, and \<open>run_step\<close>, which calls the function a \<open>step_call\<close> names.
\<close>

datatype step_call =
    Software_reset
  | Power_control_1 ILI9341_GVDD_t
  | Vcom_control_1 ILI9341_VCOMH_t ILI9341_VCOML_t
  | Vcom_control_2 ILI9341_VMF_t
  | Memory_access_control
  | Pixel_format
  | Display_function_control
  | Exit_sleep_mode
  | Turn_display_on

fun run_step :: "transport \<Rightarrow> step_call \<Rightarrow> driver \<Rightarrow> (status \<times> driver) option" where
  "run_step w Software_reset s = ili9341_software_reset w s"
| "run_step w (Power_control_1 g) s = ili9341_configure_power_control_1 w g s"
| "run_step w (Vcom_control_1 h l) s = ili9341_configure_vcom_control_1 w h l s"
| "run_step w (Vcom_control_2 m) s = ili9341_configure_vcom_control_2 w m s"
| "run_step w Memory_access_control s = ili9341_configure_memory_access_control w s"
| "run_step w Pixel_format s = ili9341_configure_pixel_format w s"
| "run_step w Display_function_control s = ili9341_configure_display_function_control w s"
| "run_step w Exit_sleep_mode s = ili9341_exit_sleep_mode w s"
| "run_step w Turn_display_on s = ili9341_turn_display_on w s"

text \<open>
  The sequencer as the specification words it: after the entry actions, the steps
  of a fixed list run in order and the first verdict other than OK is returned.
  \<open>run_steps\<close> is that fail-fast loop; \<open>init_as_steps\<close> below shows that
  \<open>init_ili9341_module\<close> is \<open>run_steps\<close> on \<open>init_steps\<close>. \<open>run_through\<close> runs every
  step of a list whatever the verdicts and collects them.
\<close>

definition init_steps :: "step_call list" where
  "init_steps =
     [Software_reset, Power_control_1 ILI9341_GVDD_4V6,
      Vcom_control_1 ILI9341_VCOMH_4V25 ILI9341_VCOML_minus_1V5,
      Vcom_control_2 ILI9341_VMF_minus_58, Memory_access_control, Pixel_format,
      Display_function_control, Exit_sleep_mode, Turn_display_on]"

definition init_entry :: "nat \<Rightarrow> nat \<Rightarrow> driver \<Rightarrow> driver" where
  "init_entry hspi peripherals s =
     ili9341_hardware_reset
       (disable_cs_pin (s\<lparr>p_hspi := hspi, p_ili9341_peripherals := peripherals\<rparr>))"

fun run_steps :: "transport \<Rightarrow> step_call list \<Rightarrow> driver \<Rightarrow> (status \<times> driver) option" where
  "run_steps w [] s = Some (ILI9341_EC_OK, s)"
| "run_steps w (c # cs) s =
     do {
       (ret, s1) \<leftarrow> run_step w c s;
       if ret \<noteq> ILI9341_EC_OK then Some (ret, s1) else run_steps w cs s1
     }"

fun run_through ::
  "transport \<Rightarrow> step_call list \<Rightarrow> driver \<Rightarrow> (status list \<times> driver) option" where
  "run_through w [] s = Some ([], s)"
| "run_through w (c # cs) s =
     do {
       (ret, s1) \<leftarrow> run_step w c s;
       (rets, s2) \<leftarrow> run_through w cs s1;
       Some (ret # rets, s2)
     }"

section \<open>What a run shows on the bus\<close>

text \<open>Every wait for the \<^verbatim>\<open>TXE\<close> flag ends: the flag reads set at some poll.\<close>

definition txe_settles :: "transport \<Rightarrow> bool" where
  "txe_settles w = (\<forall>k. \<exists>i. txe_flag w k i)"

text \<open>The HAL calls made between two states of the driver.\<close>

definition emitted :: "driver \<Rightarrow> driver \<Rightarrow> hal_call list" where
  "emitted s s' = drop (length (trace s)) (trace s')"

text \<open>
  The bytes handed to the transport while chip-select is low and the
  data/command line is low (command bytes) or high (data bytes), starting from
  the line levels \<open>lv\<close>; and all payloads handed to the transport, in order.
\<close>

fun command_bytes :: "(ili9341_line \<Rightarrow> GPIO_PinState) \<Rightarrow> hal_call list \<Rightarrow> 8 word list" where
  "command_bytes lv [] = []"
| "command_bytes lv (Gpio_write l st # es) = command_bytes (lv(l := st)) es"
| "command_bytes lv (Delay_ms n # es) = command_bytes lv es"
| "command_bytes lv (Spi_transmit_dma bs # es) =
     (if lv CS = GPIO_PIN_RESET \<and> lv DC = GPIO_PIN_RESET then bs else []) @ command_bytes lv es"

fun data_bytes :: "(ili9341_line \<Rightarrow> GPIO_PinState) \<Rightarrow> hal_call list \<Rightarrow> 8 word list" where
  "data_bytes lv [] = []"
| "data_bytes lv (Gpio_write l st # es) = data_bytes (lv(l := st)) es"
| "data_bytes lv (Delay_ms n # es) = data_bytes lv es"
| "data_bytes lv (Spi_transmit_dma bs # es) =
     (if lv CS = GPIO_PIN_RESET \<and> lv DC = GPIO_PIN_SET then bs else []) @ data_bytes lv es"

fun transmissions :: "hal_call list \<Rightarrow> 8 word list list" where
  "transmissions [] = []"
| "transmissions (Spi_transmit_dma bs # es) = bs # transmissions es"
| "transmissions (Gpio_write l st # es) = transmissions es"
| "transmissions (Delay_ms n # es) = transmissions es"

text \<open>The calls of one frame, of the hardware reset and of a whole successful run.\<close>

definition command_frame :: "8 word \<Rightarrow> hal_call list" where
  "command_frame c =
     [Gpio_write DC GPIO_PIN_RESET, Gpio_write CS GPIO_PIN_RESET, Spi_transmit_dma [c],
      Gpio_write CS GPIO_PIN_SET]"

definition command_data_frame :: "8 word \<Rightarrow> 8 word list \<Rightarrow> hal_call list" where
  "command_data_frame c d =
     [Gpio_write DC GPIO_PIN_RESET, Gpio_write CS GPIO_PIN_RESET, Spi_transmit_dma [c],
      Gpio_write DC GPIO_PIN_SET, Spi_transmit_dma d, Gpio_write CS GPIO_PIN_SET]"

definition hardware_reset_calls :: "hal_call list" where
  "hardware_reset_calls =
     [Gpio_write RESET GPIO_PIN_SET, Delay_ms 1, Gpio_write RESET GPIO_PIN_RESET, Delay_ms 1,
      Gpio_write RESET GPIO_PIN_SET, Delay_ms 5]"

definition init_success_calls :: "hal_call list" where
  "init_success_calls =
     Gpio_write CS GPIO_PIN_SET # hardware_reset_calls @
     command_frame 0x01 @ [Delay_ms 5] @
     command_data_frame 0xC0 [0x23] @
     command_data_frame 0xC5 [0x3E, 0x28] @
     command_data_frame 0xC7 [0x86] @
     command_data_frame 0x36 [0x48] @
     command_data_frame 0x3A [0x55] @
     command_data_frame 0xB6 [0x08, 0x82] @
     command_frame 0x11 @ [Delay_ms 5] @
     command_frame 0x29"

text \<open>
  The verdict of a run of the sequencer with the number of different command
  bytes it sent, and the verdict of one step with the payloads it sent.
\<close>

definition init_opcode_count ::
  "transport \<Rightarrow> nat \<Rightarrow> nat \<Rightarrow> driver \<Rightarrow> (status \<times> nat) option" where
  "init_opcode_count w hspi peripherals s =
     map_option (\<lambda>(ret, s'). (ret, card (set (command_bytes (pins s) (emitted s s')))))
       (init_ili9341_module w hspi peripherals s)"

definition step_transmissions ::
  "transport \<Rightarrow> step_call \<Rightarrow> driver \<Rightarrow> (status \<times> 8 word list list) option" where
  "step_transmissions w c s =
     map_option (\<lambda>(ret, s'). (ret, transmissions (emitted s s'))) (run_step w c s)"


section \<open>Concrete drivers and transports\<close>

text \<open>
  The driver before initialization (static variables zeroed, nothing logged) and
  two transports with the STM32 enumerators whose flag reads set from the third
  poll on: one accepts every transmit, the other answers the \<open>n\<close>-th transmit
  with \<open>st\<close>.
\<close>

definition driver0 :: driver where
  "driver0 =
     \<lparr>p_hspi = 0, p_ili9341_peripherals = 0, ili9341_bpp_type = ILI9341_BPP_16,
      p_ili9341_fill_screen = None, pins = (\<lambda>l. GPIO_PIN_RESET), tx_calls = 0, trace = []\<rparr>"

text \<open>
  The driver with both pointers bound, as \<open>init_ili9341_module\<close> leaves them before
  it makes its first call.
\<close>

definition driver_bound :: driver where
  "driver_bound = driver0\<lparr>p_hspi := 1, p_ili9341_peripherals := 2\<rparr>"

definition always_ok :: transport where
  "always_ok =
     \<lparr>hal = stm32_hal, txe_flag = (\<lambda>k i. 2 \<le> i), transmit_status = (\<lambda>k. HAL_OK stm32_hal)\<rparr>"

definition fails_at :: "nat \<Rightarrow> status \<Rightarrow> transport" where
  "fails_at n st =
     \<lparr>hal = stm32_hal, txe_flag = (\<lambda>k i. 2 \<le> i),
      transmit_status = (\<lambda>k. if k = n then st else HAL_OK stm32_hal)\<rparr>"

section \<open>Unfolding rules\<close>

lemmas status_defs =
  ILI9341_EC_OK_def ILI9341_EC_STOP_def ILI9341_EC_NR_def ILI9341_EC_NA_def ILI9341_EC_ERR_def

lemmas command_defs =
  ILI9341_SOFTWARE_RESET_COMMAND_def ILI9341_POWER_CONTROL_1_COMMAND_def
  ILI9341_VCOM_CONTROL_1_COMMAND_def ILI9341_VCOM_CONTROL_2_COMMAND_def
  ILI9341_MEMORY_ACCESS_CONTROL_COMMAND_def ILI9341_PIXEL_FORMAT_COMMAND_def
  ILI9341_DISPLAY_FUNCTION_CONTROL_COMMAND_def ILI9341_SLEEP_OUT_COMMAND_def
  ILI9341_DISPLAY_ON_COMMAND_def

lemmas size_defs =
  ILI9341_COMMAND_SIZE_def ILI9341_SINGLE_DATA_SIZE_def
  ILI9341_VCOM_CONTROL_1_DATA_SIZE_def ILI9341_DISPLAY_FUNCTION_CONTROL_DATA_SIZE_def

lemmas pin_defs =
  HAL_GPIO_WritePin_def HAL_Delay_def enable_cs_pin_def disable_cs_pin_def
  set_dc_pin_to_data_mode_def set_dc_pin_to_command_mode_def

lemmas step_defs =
  ili9341_software_reset_def ili9341_configure_power_control_1_def
  ili9341_configure_vcom_control_1_def ili9341_configure_vcom_control_2_def
  ili9341_configure_memory_access_control_def ili9341_configure_pixel_format_def
  ili9341_configure_display_function_control_def ili9341_exit_sleep_mode_def
  ili9341_turn_display_on_def

lemmas call_defs =
  command_frame_def command_data_frame_def hardware_reset_calls_def init_success_calls_def

section \<open>The transmit primitive\<close>

text \<open>If the flag reads set at some poll from \<open>i\<close> on, the wait started at \<open>i\<close> ends.\<close>

lemma wait_txe_ready: "flag j \<Longrightarrow> i \<le> j \<Longrightarrow> wait_txe flag i = Some ()"
proof (induction "j - i" arbitrary: i)
  case 0
  then have "i = j" by simp
  with 0 show ?case by (subst wait_txe.simps) simp
next
  case (Suc d)
  then have "wait_txe flag (Suc i) = Some ()" by simp
  then show ?case by (subst wait_txe.simps) simp
qed

lemma settles_ready: "txe_settles w \<Longrightarrow> wait_txe (txe_flag w k) 0 = Some ()"
  unfolding txe_settles_def using wait_txe_ready[of "txe_flag w k" _ 0] by (metis le0)

lemma dma_tx_eq:
  "ili9341_dma_spi_tx w b n s =
     (if wait_txe (txe_flag w (tx_calls s)) 0 = Some ()
      then Some (HAL_ret_handler (hal w) (transmit_status w (tx_calls s)),
                 s\<lparr>tx_calls := Suc (tx_calls s),
                   trace := trace s @ [Spi_transmit_dma (take n b)]\<rparr>)
      else None)"
  by (cases "wait_txe (txe_flag w (tx_calls s)) 0") (simp_all add: ili9341_dma_spi_tx_def)

lemma always_ok_settles: "txe_settles always_ok"
  by (auto simp: txe_settles_def always_ok_def)

lemma fails_at_settles: "txe_settles (fails_at n st)"
  by (auto simp: txe_settles_def fails_at_def)

section \<open>Translated statuses\<close>

lemma stm32_hal_valid: "hal_codes_valid stm32_hal"
  by (simp add: hal_codes_valid_def stm32_hal_def status_defs)

lemma ret_ok: "hal_codes_valid h \<Longrightarrow> HAL_ret_handler h (HAL_OK h) = ILI9341_EC_OK"
  by (auto simp: hal_codes_valid_def HAL_ret_handler_def)

lemma ret_error: "hal_codes_valid h \<Longrightarrow> HAL_ret_handler h (HAL_ERROR h) = ILI9341_EC_ERR"
  by (auto simp: hal_codes_valid_def HAL_ret_handler_def)

lemma always_ok_ret: "HAL_ret_handler (hal always_ok) (transmit_status always_ok k) = ILI9341_EC_OK"
  using ret_ok[OF stm32_hal_valid] by (simp add: always_ok_def)

section \<open>Payload values\<close>

lemma madctl_value: "madctl_byte memory_access_control_data = 0x48"
  by (simp add: madctl_byte_def memory_access_control_data_def wr_rd_dir_byte_def)


lemma pixel_format_value: "pixel_format_byte pixel_format_data = 0x55"
  by (simp add: pixel_format_byte_def pixel_format_data_def)

lemma display_function_control_buffer_value: "display_function_control_buffer = [0x08, 0x82]"
  by (simp add: display_function_control_buffer_def display_function_control_stores_def
      size_defs numeral_2_eq_2)

section \<open>Every step returns when the waits end\<close>

lemma run_step_total: "txe_settles w \<Longrightarrow> \<exists>r s'. run_step w c s = Some (r, s')"
  by (cases c) (simp_all add: step_defs dma_tx_eq settles_ready)

lemma run_steps_total: "txe_settles w \<Longrightarrow> \<exists>r s'. run_steps w cs s = Some (r, s')"
proof (induction cs arbitrary: s)
  case Nil
  then show ?case by simp
next
  case (Cons c cs)
  from run_step_total[OF Cons.prems] obtain r1 s1 where 1: "run_step w c s = Some (r1, s1)"
    by blast
  show ?case
    using 1 Cons.IH[OF Cons.prems, of s1] by (cases "r1 = ILI9341_EC_OK") simp_all
qed

section \<open>The sequencer as a fail-fast loop\<close>

lemma init_as_steps:
  "init_ili9341_module w hspi peripherals s =
     run_steps w init_steps (init_entry hspi peripherals s)"
  by (simp add: init_ili9341_module_def init_steps_def init_entry_def cong: if_cong)

lemma run_steps_first_failure:
  "run_steps w cs s = Some (r, s') \<Longrightarrow>
     \<exists>k vs. k \<le> length cs \<and> run_through w (take k cs) s = Some (vs, s') \<and>
       (k = length cs \<and> r = ILI9341_EC_OK \<and> vs = replicate k ILI9341_EC_OK \<or>
        0 < k \<and> r \<noteq> ILI9341_EC_OK \<and> vs = replicate (k - 1) ILI9341_EC_OK @ [r])"
proof (induction cs arbitrary: s)
  case Nil
  then show ?case by simp
next
  case (Cons c cs)
  from Cons.prems obtain r1 s1 where 1: "run_step w c s = Some (r1, s1)"
    by (auto simp: bind_eq_Some_conv)
  show ?case
  proof (cases "r1 = ILI9341_EC_OK")
    case False
    with 1 Cons.prems have "r = r1" "s' = s1" by simp_all
    with 1 False have "run_through w (take 1 (c # cs)) s = Some ([r], s') \<and> r \<noteq> ILI9341_EC_OK"
      by simp
    then show ?thesis
      by (intro exI[of _ 1] exI[of _ "[r]"]) simp
  next
    case True
    with 1 Cons.prems have "run_steps w cs s1 = Some (r, s')" by simp
    from Cons.IH[OF this] obtain k vs where
      k: "k \<le> length cs" "run_through w (take k cs) s1 = Some (vs, s')"
        "k = length cs \<and> r = ILI9341_EC_OK \<and> vs = replicate k ILI9341_EC_OK \<or>
         0 < k \<and> r \<noteq> ILI9341_EC_OK \<and> vs = replicate (k - 1) ILI9341_EC_OK @ [r]"
      by blast
    have "run_through w (take (Suc k) (c # cs)) s = Some (r1 # vs, s')"
      using 1 k(2) by simp
    moreover have "Suc k = length (c # cs) \<and> r = ILI9341_EC_OK \<and>
          r1 # vs = replicate (Suc k) ILI9341_EC_OK \<or>
        0 < Suc k \<and> r \<noteq> ILI9341_EC_OK \<and>
          r1 # vs = replicate (Suc k - 1) ILI9341_EC_OK @ [r]"
      using k(3) True by (cases k) auto
    ultimately show ?thesis using k(1)
      by (intro exI[of _ "Suc k"] exI[of _ "r1 # vs"]) simp
  qed
qed

section \<open>Runs of the sequencer\<close>

lemma init_all_ok:
  assumes "hal_codes_valid (hal w)" and "txe_settles w"
    and "\<forall>k\<in>{tx_calls s ..< tx_calls s + 15}. transmit_status w k = HAL_OK (hal w)"
  shows "\<exists>s'. init_ili9341_module w h p s = Some (ILI9341_EC_OK, s') \<and>
     emitted s s' = init_success_calls"
  using assms
  by (simp add: init_ili9341_module_def step_defs dma_tx_eq settles_ready ret_ok
      ili9341_hardware_reset_def pin_defs emitted_def command_defs size_defs
      madctl_value pixel_format_value display_function_control_buffer_value call_defs)

lemma always_ok_accepts:
  "\<forall>k\<in>{tx_calls driver0 ..< tx_calls driver0 + 15}.
     transmit_status always_ok k = HAL_OK (hal always_ok)"
  by (simp add: always_ok_def)

lemma command_bytes_success:
  "command_bytes lv init_success_calls = [0x01, 0xC0, 0xC5, 0xC7, 0x36, 0x3A, 0xB6, 0x11, 0x29]"
  by (simp add: call_defs)

lemma vcom2_command_fails:
  assumes "hal_codes_valid (hal w)" and "txe_settles w"
    and "\<forall>k\<in>{tx_calls s ..< tx_calls s + 5}. transmit_status w k = HAL_OK (hal w)"
    and "transmit_status w (tx_calls s + 5) = HAL_ERROR (hal w)"
  shows "\<exists>s'. init_ili9341_module w h p s = Some (ILI9341_EC_ERR, s') \<and>
     command_bytes (pins s) (emitted s s') = [0x01, 0xC0, 0xC5, 0xC7] \<and>
     transmissions (emitted s s') = [[0x01], [0xC0], [0x23], [0xC5], [0x3E, 0x28], [0xC7]]"
proof -
  have 5: "transmit_status w (Suc (Suc (Suc (Suc (Suc (tx_calls s)))))) = HAL_ERROR (hal w)"
    using assms(4) by (simp add: numeral_eq_Suc)
  have ne: "ILI9341_EC_ERR \<noteq> ILI9341_EC_OK" by (simp add: status_defs)
  from assms(1,2,3) 5 ne show ?thesis
    by (simp add: init_ili9341_module_def step_defs dma_tx_eq settles_ready ret_ok ret_error
        ili9341_hardware_reset_def pin_defs emitted_def command_defs size_defs)
qed

lemma vcom2_data_fails:
  assumes "hal_codes_valid (hal w)" and "txe_settles w"
    and "\<forall>k\<in>{tx_calls s ..< tx_calls s + 6}. transmit_status w k = HAL_OK (hal w)"
    and "transmit_status w (tx_calls s + 6) = HAL_ERROR (hal w)"
  shows "\<exists>s'. init_ili9341_module w h p s = Some (ILI9341_EC_ERR, s') \<and>
     command_bytes (pins s) (emitted s s') = [0x01, 0xC0, 0xC5, 0xC7] \<and>
     transmissions (emitted s s') =
       [[0x01], [0xC0], [0x23], [0xC5], [0x3E, 0x28], [0xC7], [0x86]]"
proof -
  have 6: "transmit_status w (Suc (Suc (Suc (Suc (Suc (Suc (tx_calls s))))))) = HAL_ERROR (hal w)"
    using assms(4) by (simp add: numeral_eq_Suc)
  have ne: "ILI9341_EC_ERR \<noteq> ILI9341_EC_OK" by (simp add: status_defs)
  from assms(1,2,3) 6 ne show ?thesis
    by (simp add: init_ili9341_module_def step_defs dma_tx_eq settles_ready ret_ok ret_error
        ili9341_hardware_reset_def pin_defs emitted_def command_defs size_defs)
qed

section \<open>The claims\<close>

text \<open>
  C1. When \<^verbatim>\<open>HAL_OK\<close> is the value of \<^verbatim>\<open>ILI9341_EC_OK\<close> and the enumerators differ,
  every wait for the flag ends and each of the fifteen transmits of the run
  reports success, \<open>init_ili9341_module\<close> returns \<open>ILI9341_EC_OK\<close>; its HAL calls start
  with the release of chip-select and the hardware reset, during which nothing
  is transmitted, and the command bytes of the run are, in this order, 0x01,
  0xC0, 0xC5, 0xC7, 0x36, 0x3A, 0xB6, 0x11, 0x29.
\<close>

theorem init_success_sequence:
  assumes "hal_codes_valid (hal w)" and "txe_settles w"
    and "\<forall>k\<in>{tx_calls s ..< tx_calls s + 15}. transmit_status w k = HAL_OK (hal w)"
  shows "\<exists>s' rest. init_ili9341_module w hspi peripherals s = Some (ILI9341_EC_OK, s') \<and>
     emitted s s' = Gpio_write CS GPIO_PIN_SET # hardware_reset_calls @ rest \<and>
     transmissions (Gpio_write CS GPIO_PIN_SET # hardware_reset_calls) = [] \<and>
     command_bytes (pins s) (emitted s s') =
       [0x01, 0xC0, 0xC5, 0xC7, 0x36, 0x3A, 0xB6, 0x11, 0x29]"
proof -
  from init_all_ok[OF assms] obtain s' where
    s': "init_ili9341_module w hspi peripherals s = Some (ILI9341_EC_OK, s')"
        "emitted s s' = init_success_calls" by blast
  have "emitted s s' =
      Gpio_write CS GPIO_PIN_SET # hardware_reset_calls @ drop 7 init_success_calls"
    unfolding s'(2) by (simp add: call_defs)
  moreover have "transmissions (Gpio_write CS GPIO_PIN_SET # hardware_reset_calls) = []"
    by (simp add: call_defs)
  moreover have "command_bytes (pins s) (emitted s s') =
      [0x01, 0xC0, 0xC5, 0xC7, 0x36, 0x3A, 0xB6, 0x11, 0x29]"
    unfolding s'(2) by (rule command_bytes_success)
  ultimately show ?thesis using s'(1) by blast
qed

theorem init_success_sequence_witness:
  "hal_codes_valid (hal always_ok) \<and> txe_settles always_ok \<and>
   (\<exists>s' rest. init_ili9341_module always_ok 1 2 driver0 = Some (ILI9341_EC_OK, s') \<and>
     emitted driver0 s' = Gpio_write CS GPIO_PIN_SET # hardware_reset_calls @ rest \<and>
     transmissions (Gpio_write CS GPIO_PIN_SET # hardware_reset_calls) = [] \<and>
     command_bytes (pins driver0) (emitted driver0 s') =
       [0x01, 0xC0, 0xC5, 0xC7, 0x36, 0x3A, 0xB6, 0x11, 0x29])"
proof -
  have v: "hal_codes_valid (hal always_ok)"
    using stm32_hal_valid by (simp add: always_ok_def)
  have a: "txe_settles always_ok" by (rule always_ok_settles)
  show ?thesis by (intro conjI v a init_success_sequence[OF v a always_ok_accepts])
qed

text \<open>
  C2. Whenever \<open>init_ili9341_module\<close> returns \<open>r\<close> in state \<open>s'\<close>, there is a number \<open>k\<close>
  of steps such that running exactly the first \<open>k\<close> steps of the fixed order from
  the state after the hardware reset ends in \<open>s'\<close>, and either all nine steps ran
  with verdict OK and \<open>r\<close> is OK, or the first \<open>k - 1\<close> verdicts are OK and the
  \<open>k\<close>-th is \<open>r\<close>, which is not OK: no later step has run, so none has transmitted.
  The sequencer returns whenever the waits for the flag end. In particular, when
  the five transmits before the VCOM Control 2 step are accepted and the
  transport answers \<^verbatim>\<open>HAL_ERROR\<close> to that step's command, or accepts the command and
  answers \<^verbatim>\<open>HAL_ERROR\<close> to its data, the sequencer returns \<open>ILI9341_EC_ERR\<close>, the command
  bytes sent are 0x01, 0xC0, 0xC5, 0xC7 only, and the last payload handed to the
  transport is the one of the VCOM Control 2 step that failed.
\<close>

theorem init_stops_at_first_failure:
  "(\<forall>r s'. init_ili9341_module w hspi peripherals s = Some (r, s') \<longrightarrow>
      (\<exists>k vs. k \<le> length init_steps \<and>
         run_through w (take k init_steps) (init_entry hspi peripherals s) = Some (vs, s') \<and>
         (k = length init_steps \<and> r = ILI9341_EC_OK \<and> vs = replicate k ILI9341_EC_OK \<or>
          0 < k \<and> r \<noteq> ILI9341_EC_OK \<and> vs = replicate (k - 1) ILI9341_EC_OK @ [r]))) \<and>
   (txe_settles w \<longrightarrow> (\<exists>r s'. init_ili9341_module w hspi peripherals s = Some (r, s'))) \<and>
   (hal_codes_valid (hal w) \<and> txe_settles w \<and>
    (\<forall>k\<in>{tx_calls s ..< tx_calls s + 5}. transmit_status w k = HAL_OK (hal w)) \<and>
    (transmit_status w (tx_calls s + 5) = HAL_ERROR (hal w) \<or>
     transmit_status w (tx_calls s + 5) = HAL_OK (hal w) \<and>
     transmit_status w (tx_calls s + 6) = HAL_ERROR (hal w)) \<longrightarrow>
      (\<exists>s'. init_ili9341_module w hspi peripherals s = Some (ILI9341_EC_ERR, s') \<and>
         command_bytes (pins s) (emitted s s') = [0x01, 0xC0, 0xC5, 0xC7] \<and>
         transmissions (emitted s s') =
           [[0x01], [0xC0], [0x23], [0xC5], [0x3E, 0x28], [0xC7]] @
           (if transmit_status w (tx_calls s + 5) = HAL_ERROR (hal w) then [] else [[0x86]])))"
proof (intro conjI allI impI)
  fix r s'
  assume "init_ili9341_module w hspi peripherals s = Some (r, s')"
  then have "run_steps w init_steps (init_entry hspi peripherals s) = Some (r, s')"
    by (simp add: init_as_steps)
  then show "\<exists>k vs. k \<le> length init_steps \<and>
         run_through w (take k init_steps) (init_entry hspi peripherals s) = Some (vs, s') \<and>
         (k = length init_steps \<and> r = ILI9341_EC_OK \<and> vs = replicate k ILI9341_EC_OK \<or>
          0 < k \<and> r \<noteq> ILI9341_EC_OK \<and> vs = replicate (k - 1) ILI9341_EC_OK @ [r])"
    by (rule run_steps_first_failure)
next
  assume "txe_settles w"
  then show "\<exists>r s'. init_ili9341_module w hspi peripherals s = Some (r, s')"
    unfolding init_as_steps by (rule run_steps_total)
next
  assume a: "hal_codes_valid (hal w) \<and> txe_settles w \<and>
    (\<forall>k\<in>{tx_calls s ..< tx_calls s + 5}. transmit_status w k = HAL_OK (hal w)) \<and>
    (transmit_status w (tx_calls s + 5) = HAL_ERROR (hal w) \<or>
     transmit_status w (tx_calls s + 5) = HAL_OK (hal w) \<and>
     transmit_status w (tx_calls s + 6) = HAL_ERROR (hal w))"
  then have valid: "hal_codes_valid (hal w)" and settles: "txe_settles w"
    and ok5: "\<forall>k\<in>{tx_calls s ..< tx_calls s + 5}. transmit_status w k = HAL_OK (hal w)"
    by simp_all
  from a consider
      (command) "transmit_status w (tx_calls s + 5) = HAL_ERROR (hal w)"
    | (data) "transmit_status w (tx_calls s + 5) = HAL_OK (hal w)"
        "transmit_status w (tx_calls s + 6) = HAL_ERROR (hal w)" by blast
  then show "\<exists>s'. init_ili9341_module w hspi peripherals s = Some (ILI9341_EC_ERR, s') \<and>
         command_bytes (pins s) (emitted s s') = [0x01, 0xC0, 0xC5, 0xC7] \<and>
         transmissions (emitted s s') =
           [[0x01], [0xC0], [0x23], [0xC5], [0x3E, 0x28], [0xC7]] @
           (if transmit_status w (tx_calls s + 5) = HAL_ERROR (hal w) then [] else [[0x86]])"
  proof cases
    case command
    from vcom2_command_fails[OF valid settles ok5 command, of hspi peripherals] command
    show ?thesis by simp
  next
    case data
    have ok6: "\<forall>k\<in>{tx_calls s ..< tx_calls s + 6}. transmit_status w k = HAL_OK (hal w)"
    proof
      fix k assume "k \<in> {tx_calls s ..< tx_calls s + 6}"
      then have "k \<in> {tx_calls s ..< tx_calls s + 5} \<or> k = tx_calls s + 5" by auto
      with ok5 data(1) show "transmit_status w k = HAL_OK (hal w)" by auto
    qed
    have "HAL_OK (hal w) \<noteq> HAL_ERROR (hal w)"
      using valid by (auto simp: hal_codes_valid_def)
    with vcom2_data_fails[OF valid settles ok6 data(2), of hspi peripherals] data(1)
    show ?thesis by simp
  qed
qed

theorem init_stops_at_first_failure_witness:
  "hal_codes_valid (hal (fails_at 5 (HAL_ERROR stm32_hal))) \<and>
   txe_settles (fails_at 5 (HAL_ERROR stm32_hal)) \<and>
   transmit_status (fails_at 5 (HAL_ERROR stm32_hal)) (tx_calls driver0 + 5) =
     HAL_ERROR (hal (fails_at 5 (HAL_ERROR stm32_hal))) \<and>
   (\<exists>s'. init_ili9341_module (fails_at 5 (HAL_ERROR stm32_hal)) 1 2 driver0 =
        Some (ILI9341_EC_ERR, s') \<and>
      command_bytes (pins driver0) (emitted driver0 s') = [0x01, 0xC0, 0xC5, 0xC7] \<and>
      transmissions (emitted driver0 s') = [[0x01], [0xC0], [0x23], [0xC5], [0x3E, 0x28], [0xC7]] \<and>
      (\<exists>k vs. k \<le> length init_steps \<and>
         run_through (fails_at 5 (HAL_ERROR stm32_hal)) (take k init_steps)
           (init_entry 1 2 driver0) = Some (vs, s') \<and>
         0 < k \<and> vs = replicate (k - 1) ILI9341_EC_OK @ [ILI9341_EC_ERR]))"
proof -
  let ?w = "fails_at 5 (HAL_ERROR stm32_hal)"
  note inst = init_stops_at_first_failure[of ?w 1 2 driver0]
  have v: "hal_codes_valid (hal ?w)"
    using stm32_hal_valid by (simp add: fails_at_def)
  have a: "txe_settles ?w" by (rule fails_at_settles)
  have b: "\<forall>k\<in>{tx_calls driver0 ..< tx_calls driver0 + 5}. transmit_status ?w k = HAL_OK (hal ?w)"
    by (simp add: fails_at_def driver0_def)
  have c: "transmit_status ?w (tx_calls driver0 + 5) = HAL_ERROR (hal ?w)"
    by (simp add: fails_at_def driver0_def)
  from inst v a b c obtain s' where
    s': "init_ili9341_module ?w 1 2 driver0 = Some (ILI9341_EC_ERR, s')"
      "command_bytes (pins driver0) (emitted driver0 s') = [0x01, 0xC0, 0xC5, 0xC7]"
      "transmissions (emitted driver0 s') = [[0x01], [0xC0], [0x23], [0xC5], [0x3E, 0x28], [0xC7]]"
    by auto
  have ne: "ILI9341_EC_ERR \<noteq> ILI9341_EC_OK" by (simp add: status_defs)
  from inst s'(1) ne obtain k vs where
    "k \<le> length init_steps"
    "run_through ?w (take k init_steps) (init_entry 1 2 driver0) = Some (vs, s')"
    "0 < k" "vs = replicate (k - 1) ILI9341_EC_OK @ [ILI9341_EC_ERR]"
    by blast
  with v a c s' show ?thesis by blast
qed

text \<open>
  C3. For every status value: busy and timeout give \<open>ILI9341_EC_NR\<close>; the hard-error
  code, an enumerator other than those two, gives \<open>ILI9341_EC_ERR\<close>; any other value
  is returned as it is. The translator has no state of the driver in its hands;
  the last conjunct says that the driver state after a transmit is the same
  whatever statuses the transport returns, and so whatever the translator is
  given.
\<close>

theorem HAL_ret_handler_translation:
  "(x = HAL_BUSY h \<or> x = HAL_TIMEOUT h \<longrightarrow> HAL_ret_handler h x = ILI9341_EC_NR) \<and>
   (x = HAL_ERROR h \<and> HAL_ERROR h \<noteq> HAL_BUSY h \<and> HAL_ERROR h \<noteq> HAL_TIMEOUT h \<longrightarrow>
      HAL_ret_handler h x = ILI9341_EC_ERR) \<and>
   (x \<noteq> HAL_BUSY h \<and> x \<noteq> HAL_TIMEOUT h \<and> x \<noteq> HAL_ERROR h \<longrightarrow> HAL_ret_handler h x = x) \<and>
   map_option snd (ili9341_dma_spi_tx (w\<lparr>transmit_status := f\<rparr>) b n s) =
     map_option snd (ili9341_dma_spi_tx w b n s)"
  by (simp add: HAL_ret_handler_def dma_tx_eq)

theorem HAL_ret_handler_translation_witness:
  "HAL_ret_handler stm32_hal (HAL_BUSY stm32_hal) = ILI9341_EC_NR \<and>
   HAL_ret_handler stm32_hal (HAL_TIMEOUT stm32_hal) = ILI9341_EC_NR \<and>
   HAL_ret_handler stm32_hal (HAL_ERROR stm32_hal) = ILI9341_EC_ERR \<and>
   HAL_ret_handler stm32_hal (HAL_OK stm32_hal) = HAL_OK stm32_hal \<and>
   HAL_ret_handler stm32_hal 7 = 7"
  using HAL_ret_handler_translation[of "HAL_BUSY stm32_hal" stm32_hal]
    HAL_ret_handler_translation[of "HAL_TIMEOUT stm32_hal" stm32_hal]
    HAL_ret_handler_translation[of "HAL_ERROR stm32_hal" stm32_hal]
    HAL_ret_handler_translation[of "HAL_OK stm32_hal" stm32_hal]
    HAL_ret_handler_translation[of 7 stm32_hal]
  by (simp add: stm32_hal_def)

text \<open>
  C4. Every step returns when the waits for the flag end, and whenever a step
  returns, with whatever verdict and for whatever the transport answered to the
  command or the data transmit, the chip-select line is high.
\<close>

theorem chip_select_released:
  "(txe_settles w \<longrightarrow> (\<exists>r s'. run_step w c s = Some (r, s'))) \<and>
   (\<forall>r s'. run_step w c s = Some (r, s') \<longrightarrow> pins s' CS = GPIO_PIN_SET)"
proof (intro conjI impI allI)
  assume "txe_settles w"
  then show "\<exists>r s'. run_step w c s = Some (r, s')" by (rule run_step_total)
next
  fix r s'
  assume "run_step w c s = Some (r, s')"
  then show "pins s' CS = GPIO_PIN_SET"
    by (cases c) (auto simp: step_defs dma_tx_eq pin_defs split: if_splits)
qed

theorem chip_select_released_witness:
  "\<exists>r s'. run_step (fails_at 1 (HAL_ERROR stm32_hal)) (Power_control_1 ILI9341_GVDD_4V6) driver0 =
       Some (r, s') \<and>
     r = ILI9341_EC_ERR \<and> pins s' CS = GPIO_PIN_SET"
proof -
  let ?w = "fails_at 1 (HAL_ERROR stm32_hal)"
  have "run_step ?w (Power_control_1 ILI9341_GVDD_4V6) driver0 =
      Some (ILI9341_EC_ERR, snd (the (run_step ?w (Power_control_1 ILI9341_GVDD_4V6) driver0)))"
    by (simp add: step_defs dma_tx_eq settles_ready[OF fails_at_settles] pin_defs driver0_def
        HAL_ret_handler_def, simp add: fails_at_def stm32_hal_def status_defs)
  with chip_select_released[of ?w "Power_control_1 ILI9341_GVDD_4V6" driver0]
  show ?thesis by blast
qed




text \<open>
  C6. From every state, so after any number of earlier calls, the Pixel Format
  step returns whenever the waits for the flag end, and whenever it returns, the
  data bytes it sent are the single byte 0x55 if its command was accepted, and
  none otherwise. In that byte the bits 0 to 2 and the bits 4 to 6 both hold
  0x05, and the bits 3 and 7 are clear.
\<close>

theorem pixel_format_payload:
  "(txe_settles w \<longrightarrow> (\<exists>r s'. ili9341_configure_pixel_format w s = Some (r, s'))) \<and>
   (\<forall>r s'. ili9341_configure_pixel_format w s = Some (r, s') \<longrightarrow>
      data_bytes (pins s) (emitted s s') =
        (if HAL_ret_handler (hal w) (transmit_status w (tx_calls s)) = ILI9341_EC_OK
         then [0x55] else [])) \<and>
   pixel_format_byte pixel_format_data = 0x55 \<and>
   take_bit 3 (pixel_format_byte pixel_format_data) = 0x05 \<and>
   take_bit 3 (drop_bit 4 (pixel_format_byte pixel_format_data)) = 0x05 \<and>
   \<not> bit (pixel_format_byte pixel_format_data) 3 \<and>
   \<not> bit (pixel_format_byte pixel_format_data) 7"
proof (intro conjI allI impI)
  assume "txe_settles w"
  from run_step_total[OF this, of Pixel_format s]
  show "\<exists>r s'. ili9341_configure_pixel_format w s = Some (r, s')" by simp
next
  fix r s'
  assume "ili9341_configure_pixel_format w s = Some (r, s')"
  then show "data_bytes (pins s) (emitted s s') =
        (if HAL_ret_handler (hal w) (transmit_status w (tx_calls s)) = ILI9341_EC_OK
         then [0x55] else [])"
    by (auto simp: step_defs dma_tx_eq pin_defs emitted_def pixel_format_value size_defs
        split: if_splits)
qed (simp_all add: pixel_format_value)

theorem pixel_format_payload_witness:
  "(\<exists>r1 s1 r2 s2. ili9341_configure_pixel_format always_ok driver_bound = Some (r1, s1) \<and>
      ili9341_configure_pixel_format always_ok s1 = Some (r2, s2) \<and>
      data_bytes (pins driver_bound) (emitted driver_bound s1) = [0x55] \<and>
      data_bytes (pins s1) (emitted s1 s2) = [0x55]) \<and>
   (\<exists>r s'. ili9341_configure_pixel_format (fails_at 1 (HAL_ERROR stm32_hal)) driver_bound =
        Some (r, s') \<and>
      data_bytes (pins driver_bound) (emitted driver_bound s') = [0x55]) \<and>
   (\<exists>r s'. ili9341_configure_pixel_format (fails_at 0 (HAL_BUSY stm32_hal)) driver_bound =
        Some (r, s') \<and>
      data_bytes (pins driver_bound) (emitted driver_bound s') = [])"
proof (intro conjI)
  from pixel_format_payload[of always_ok driver_bound] always_ok_settles
  obtain r1 s1 where 1: "ili9341_configure_pixel_format always_ok driver_bound = Some (r1, s1)"
    by blast
  from pixel_format_payload[of always_ok s1] always_ok_settles
  obtain r2 s2 where 2: "ili9341_configure_pixel_format always_ok s1 = Some (r2, s2)"
    by blast
  from 1 pixel_format_payload[of always_ok driver_bound] always_ok_ret
  have "data_bytes (pins driver_bound) (emitted driver_bound s1) = [0x55]" by auto
  moreover from 2 pixel_format_payload[of always_ok s1] always_ok_ret
  have "data_bytes (pins s1) (emitted s1 s2) = [0x55]" by auto
  ultimately
  show "\<exists>r1 s1 r2 s2. ili9341_configure_pixel_format always_ok driver_bound = Some (r1, s1) \<and>
      ili9341_configure_pixel_format always_ok s1 = Some (r2, s2) \<and>
      data_bytes (pins driver_bound) (emitted driver_bound s1) = [0x55] \<and>
      data_bytes (pins s1) (emitted s1 s2) = [0x55]" using 1 2 by blast
next
  let ?w = "fails_at 1 (HAL_ERROR stm32_hal)"
  note inst = pixel_format_payload[of ?w driver_bound]
  have ok: "HAL_ret_handler (hal ?w) (transmit_status ?w (tx_calls driver_bound)) = ILI9341_EC_OK"
    by (simp add: fails_at_def driver_bound_def driver0_def stm32_hal_def HAL_ret_handler_def
        status_defs)
  from inst fails_at_settles obtain r s' where
    "ili9341_configure_pixel_format ?w driver_bound = Some (r, s')" by blast
  with inst ok
  show "\<exists>r s'. ili9341_configure_pixel_format ?w driver_bound = Some (r, s') \<and>
      data_bytes (pins driver_bound) (emitted driver_bound s') = [0x55]" by auto
next
  let ?w = "fails_at 0 (HAL_BUSY stm32_hal)"
  note inst = pixel_format_payload[of ?w driver_bound]
  have nr: "HAL_ret_handler (hal ?w) (transmit_status ?w (tx_calls driver_bound)) \<noteq> ILI9341_EC_OK"
    by (simp add: fails_at_def driver_bound_def driver0_def stm32_hal_def HAL_ret_handler_def
        status_defs)
  from inst fails_at_settles obtain r s' where
    "ili9341_configure_pixel_format ?w driver_bound = Some (r, s')" by blast
  with inst nr
  show "\<exists>r s'. ili9341_configure_pixel_format ?w driver_bound = Some (r, s') \<and>
      data_bytes (pins driver_bound) (emitted driver_bound s') = []" by auto
qed

text \<open>
  C7, as stated, fails: called with a bound SPI handle and a bound pin
  assignment on the transport that accepts every transmit, the run returns
  \<open>ILI9341_EC_OK\<close> and has sent 9 different command bytes, not 8.
\<close>

theorem init_opcode_count_is_8_counterexample:
  "init_opcode_count always_ok 1 2 driver0 = Some (ILI9341_EC_OK, 9) \<and>
   init_opcode_count always_ok 1 2 driver0 \<noteq> Some (ILI9341_EC_OK, 8)"
proof -
  have v: "hal_codes_valid (hal always_ok)"
    using stm32_hal_valid by (simp add: always_ok_def)
  from init_all_ok[OF v always_ok_settles always_ok_accepts, of 1 2] obtain s' where
    "init_ili9341_module always_ok 1 2 driver0 = Some (ILI9341_EC_OK, s')"
    "emitted driver0 s' = init_success_calls" by blast
  then have "init_opcode_count always_ok 1 2 driver0 = Some (ILI9341_EC_OK, 9)"
    by (simp add: init_opcode_count_def command_bytes_success)
  then show ?thesis by simp
qed

text \<open>
  C7, amended. In a run in which every wait for the flag ends and every transmit
  reports success, the sequencer returns \<open>ILI9341_EC_OK\<close> and the number of
  different command bytes it has sent is 9.
\<close>

theorem init_distinct_opcodes:
  assumes "hal_codes_valid (hal w)" and "txe_settles w"
    and "\<forall>k\<in>{tx_calls s ..< tx_calls s + 15}. transmit_status w k = HAL_OK (hal w)"
  shows "\<exists>s'. init_ili9341_module w hspi peripherals s = Some (ILI9341_EC_OK, s') \<and>
     card (set (command_bytes (pins s) (emitted s s'))) = 9"
proof -
  from init_all_ok[OF assms] obtain s' where
    "init_ili9341_module w hspi peripherals s = Some (ILI9341_EC_OK, s')"
    "emitted s s' = init_success_calls" by blast
  then show ?thesis by (simp add: command_bytes_success)
qed

theorem init_distinct_opcodes_witness:
  "\<exists>s'. init_ili9341_module always_ok 1 2 driver0 = Some (ILI9341_EC_OK, s') \<and>
     card (set (command_bytes (pins driver0) (emitted driver0 s'))) = 9"
proof -
  have v: "hal_codes_valid (hal always_ok)"
    using stm32_hal_valid by (simp add: always_ok_def)
  show ?thesis by (rule init_distinct_opcodes[OF v always_ok_settles always_ok_accepts])
qed

text \<open>
  C8. From any state the hardware reset writes the reset line high, waits 1, writes
  it low, waits 1, writes it high and waits 5, and changes nothing else but the
  level of the reset line. It returns no verdict: the model is a total function
  from state to state.
\<close>

theorem hardware_reset_sequence:
  "ili9341_hardware_reset s =
     s\<lparr>pins := (pins s)(RESET := GPIO_PIN_SET),
       trace := trace s @
         [Gpio_write RESET GPIO_PIN_SET, Delay_ms 1, Gpio_write RESET GPIO_PIN_RESET, Delay_ms 1,
          Gpio_write RESET GPIO_PIN_SET, Delay_ms 5]\<rparr> \<and>
   emitted s (ili9341_hardware_reset s) =
     [Gpio_write RESET GPIO_PIN_SET, Delay_ms 1, Gpio_write RESET GPIO_PIN_RESET, Delay_ms 1,
      Gpio_write RESET GPIO_PIN_SET, Delay_ms 5]"
  by (simp add: ili9341_hardware_reset_def pin_defs emitted_def)

text \<open>
  C9. The Display Function Control step stores three bytes, at the indices 0, 1
  and 2, into a buffer declared with \<open>ILI9341_DISPLAY_FUNCTION_CONTROL_DATA_SIZE = 2\<close>
  elements, so the third store is outside the buffer, and it passes the byte
  count 2 to the transmit call: on the transport that accepts every transmit the
  step sends the opcode 0xB6 and then the two bytes 0x08 and 0x82.
\<close>

theorem display_function_control_overrun:
  "\<not> stores_in_bounds ILI9341_DISPLAY_FUNCTION_CONTROL_DATA_SIZE display_function_control_stores \<and>
   length display_function_control_stores = 3 \<and>
   ILI9341_DISPLAY_FUNCTION_CONTROL_DATA_SIZE = 2 \<and>
   step_transmissions always_ok Display_function_control driver0 =
     Some (ILI9341_EC_OK, [[0xB6], [0x08, 0x82]])"
  by (simp add: stores_in_bounds_def display_function_control_stores_def size_defs
      step_transmissions_def step_defs dma_tx_eq settles_ready[OF always_ok_settles]
      display_function_control_buffer_value command_defs pin_defs emitted_def driver0_def
      always_ok_ret)

text \<open>
  C10. Whenever the Pixel Format step returns, with whatever verdict, the stored
  mode is 16 bits per pixel and the fill-screen pointer refers to the 16-bpp
  routine; the step returns whenever the waits for the flag end.
\<close>

theorem pixel_format_commits_mode:
  "(txe_settles w \<longrightarrow> (\<exists>r s'. ili9341_configure_pixel_format w s = Some (r, s'))) \<and>
   (\<forall>r s'. ili9341_configure_pixel_format w s = Some (r, s') \<longrightarrow>
      ili9341_bpp_type s' = ILI9341_BPP_16 \<and>
      p_ili9341_fill_screen s' = Some ili9341_fill_screen_16bpp)"
proof (intro conjI impI allI)
  assume "txe_settles w"
  from run_step_total[OF this, of Pixel_format s]
  show "\<exists>r s'. ili9341_configure_pixel_format w s = Some (r, s')" by simp
next
  fix r s'
  assume "ili9341_configure_pixel_format w s = Some (r, s')"
  then show "ili9341_bpp_type s' = ILI9341_BPP_16"
    by (auto simp: step_defs dma_tx_eq pin_defs split: if_splits)
next
  fix r s'
  assume "ili9341_configure_pixel_format w s = Some (r, s')"
  then show "p_ili9341_fill_screen s' = Some ili9341_fill_screen_16bpp"
    by (auto simp: step_defs dma_tx_eq pin_defs split: if_splits)
qed

theorem pixel_format_commits_mode_witness:
  "\<exists>r s'. ili9341_configure_pixel_format (fails_at 0 (HAL_ERROR stm32_hal))
       (driver0\<lparr>ili9341_bpp_type := ILI9341_BPP_18,
                p_ili9341_fill_screen := Some ili9341_fill_screen_18bpp\<rparr>) = Some (r, s') \<and>
     r = ILI9341_EC_ERR \<and> ili9341_bpp_type s' = ILI9341_BPP_16 \<and>
     p_ili9341_fill_screen s' = Some ili9341_fill_screen_16bpp"
proof -
  let ?w = "fails_at 0 (HAL_ERROR stm32_hal)"
  let ?s = "driver0\<lparr>ili9341_bpp_type := ILI9341_BPP_18,
                p_ili9341_fill_screen := Some ili9341_fill_screen_18bpp\<rparr>"
  have "ili9341_configure_pixel_format ?w ?s =
      Some (ILI9341_EC_ERR, snd (the (ili9341_configure_pixel_format ?w ?s)))"
    by (simp add: step_defs dma_tx_eq settles_ready[OF fails_at_settles] pin_defs driver0_def
        HAL_ret_handler_def, simp add: fails_at_def stm32_hal_def status_defs)
  with pixel_format_commits_mode[of ?w ?s]
  show ?thesis by blast
qed

end
